theory Spec2Isabelle
  imports Main
begin

section \<open>Python values, types and exceptions\<close>

text \<open>
  The module \<^verbatim>\<open>bigrep/jsnot.py\<close> wraps a decoded JSON value in the class
  \<^verbatim>\<open>JSNOT\<close>. The values that class handles are modelled by a closed datatype:
  the six kinds of value a JSON decoder produces, and a readable text stream
  (an \<^verbatim>\<open>io.StringIO\<close>, an instance of \<^verbatim>\<open>IOBase\<close>) given by the text
  that reading it yields. A \<^verbatim>\<open>dict\<close> keeps its items in insertion order and is
  an association list, read with \<open>map_of\<close>. A float is kept as the literal that denotes
  it; no float arithmetic is modelled. The semantics is that of Python 3, where a decoded
  JSON string is a \<^verbatim>\<open>str\<close>.
\<close>

datatype pyval =
    PNone
  | PBool bool
  | PInt int
  | PFloat string
  | PStr string
  | PList "pyval list"
  | PDict "(string \<times> pyval) list"
  | PFile string

datatype pytype =
  TObject | TNoneType | TBool | TInt | TFloat | TStr | TList | TDict | TIOBase | TStringIO

text \<open>\<^verbatim>\<open>type(val)\<close>.\<close>

fun type_of :: "pyval \<Rightarrow> pytype" where
  "type_of PNone = TNoneType"
| "type_of (PBool b) = TBool"
| "type_of (PInt i) = TInt"
| "type_of (PFloat f) = TFloat"
| "type_of (PStr s) = TStr"
| "type_of (PList xs) = TList"
| "type_of (PDict kvs) = TDict"
| "type_of (PFile s) = TStringIO"

text \<open>
  \<^verbatim>\<open>issubclass\<close> on the classes above: every class derives from \<^verbatim>\<open>object\<close>,
  \<^verbatim>\<open>bool\<close> derives from \<^verbatim>\<open>int\<close>, and \<^verbatim>\<open>StringIO\<close> from \<^verbatim>\<open>IOBase\<close>.
\<close>

definition issubclass :: "pytype \<Rightarrow> pytype \<Rightarrow> bool" where
  "issubclass a b \<longleftrightarrow>
     a = b \<or> b = TObject \<or> (a = TBool \<and> b = TInt) \<or> (a = TStringIO \<and> b = TIOBase)"

text \<open>The second argument of \<^verbatim>\<open>isinstance\<close>: a class, or a tuple of such arguments.\<close>

datatype classinfo = Class pytype | Tuple "classinfo list"

fun isinstance :: "pyval \<Rightarrow> classinfo \<Rightarrow> bool" where
  "isinstance v (Class t) = issubclass (type_of v) t"
| "isinstance v (Tuple cs) = list_ex (isinstance v) cs"

text \<open>
  The exceptions the module can raise. \<open>KeyError k\<close> is raised by \<^verbatim>\<open>d[k]\<close> on a
  dict without the key \<open>k\<close>; \<open>TypeError_subscript t\<close> is the \<^verbatim>\<open>TypeError\<close> that
  \<^verbatim>\<open>v[k]\<close> raises for a string \<open>k\<close> and a value \<open>v\<close> of a type \<open>t\<close> other than
  dict (a list or a string wants integer indices, the others are not subscriptable);
  \<open>TypeError c\<close> is the \<^verbatim>\<open>TypeError(classinfo)\<close> of \<^verbatim>\<open>satisfy\<close>;
  \<open>JSONDecodeError\<close> (a \<^verbatim>\<open>ValueError\<close>) comes from the decoder.
\<close>

datatype error =
    KeyError string
  | TypeError_subscript pytype
  | TypeError classinfo
  | JSONDecodeError

text \<open>
  \<^verbatim>\<open>except LookupError\<close> catches \<^verbatim>\<open>KeyError\<close> (and \<^verbatim>\<open>IndexError\<close>, which
  nothing here raises); \<^verbatim>\<open>TypeError\<close> and \<^verbatim>\<open>ValueError\<close> are not lookup errors.
\<close>

fun is_LookupError :: "error \<Rightarrow> bool" where
  "is_LookupError (KeyError k) = True"
| "is_LookupError (TypeError_subscript t) = False"
| "is_LookupError (TypeError c) = False"
| "is_LookupError JSONDecodeError = False"

fun is_dict :: "pyval \<Rightarrow> bool" where
  "is_dict (PDict kvs) = True"
| "is_dict v = False"

text \<open>\<^verbatim>\<open>prev[cur]\<close> for a string \<^verbatim>\<open>cur\<close>.\<close>

fun subscript :: "pyval \<Rightarrow> string \<Rightarrow> error + pyval" where
  "subscript (PDict kvs) cur =
     (case map_of kvs cur of None \<Rightarrow> Inl (KeyError cur) | Some v \<Rightarrow> Inr v)"
| "subscript v cur = Inl (TypeError_subscript (type_of v))"

text \<open>
  \<^verbatim>\<open>functools.reduce(function, iterable, initial)\<close>, a left fold; an exception
  raised by the function ends it.
\<close>

fun reduce :: "('a \<Rightarrow> 'b \<Rightarrow> error + 'a) \<Rightarrow> 'b list \<Rightarrow> 'a \<Rightarrow> error + 'a" where
  "reduce f [] acc = Inr acc"
| "reduce f (x # xs) acc =
     (case f acc x of Inl e \<Rightarrow> Inl e | Inr acc' \<Rightarrow> reduce f xs acc')"

section \<open>The delimiter pattern and \<^verbatim>\<open>re.split\<close>\<close>

text \<open>
  The source gives the pattern as the Python literal
  \<^verbatim>\<open>'\\\\(?!\\\\["/bfnrtu])'\<close>. The literal is not a raw string: each \<^verbatim>\<open>\\\<close>
  in it is one backslash, so the regular expression is
  \<^verbatim>\<open>\\(?!\\["/bfnrtu])\<close>, that is: a backslash (\<^verbatim>\<open>\\\<close>), not followed by
  (\<^verbatim>\<open>(?! ... )\<close>) a backslash (\<^verbatim>\<open>\\\<close>) and then one character of the class
  \<^verbatim>\<open>["/bfnrtu]\<close>. The second backslash stands before the bracket, not inside it.

  The fragment of regular expressions the pattern uses is a sequence of items, each a
  literal character, a character class or a negative lookahead. \<open>re_match p s\<close> matches
  \<open>p\<close> at the start of \<open>s\<close> and returns what follows the match.
\<close>

abbreviation backslash :: char where "backslash \<equiv> CHR 0x5C"
abbreviation dquote :: char where "dquote \<equiv> CHR 0x22"

datatype regex_item = Lit char | CharClass "char list" | NegLookahead "regex_item list"

fun re_match :: "regex_item list \<Rightarrow> string \<Rightarrow> string option" where
  "re_match [] s = Some s"
| "re_match (Lit c # r) s =
     (case s of [] \<Rightarrow> None | d # ds \<Rightarrow> if d = c then re_match r ds else None)"
| "re_match (CharClass cs # r) s =
     (case s of [] \<Rightarrow> None | d # ds \<Rightarrow> if d \<in> set cs then re_match r ds else None)"
| "re_match (NegLookahead p # r) s =
     (case re_match p s of Some _ \<Rightarrow> None | None \<Rightarrow> re_match r s)"

definition DELIMITER_PATTERN :: "regex_item list" where
  "DELIMITER_PATTERN =
     [Lit backslash, NegLookahead [Lit backslash, CharClass (dquote # ''/bfnrtu'')]]"

text \<open>
  \<^verbatim>\<open>re.split(pattern, string)\<close> for a pattern without groups: the string is scanned
  from the left, each match ends the current piece and the scan goes on after the match.
  A match that consumes nothing is passed over here; the delimiter pattern always
  consumes its backslash.
\<close>

function re_split :: "regex_item list \<Rightarrow> string \<Rightarrow> string list" where
  "re_split p [] = [[]]"
| "re_split p (c # cs) =
     (case re_match p (c # cs) of
        Some rest \<Rightarrow>
          if length rest < length (c # cs) then [] # re_split p rest
          else (case re_split p cs of [] \<Rightarrow> [[c]] | seg # segs \<Rightarrow> (c # seg) # segs)
      | None \<Rightarrow> (case re_split p cs of [] \<Rightarrow> [[c]] | seg # segs \<Rightarrow> (c # seg) # segs))"
  by pat_completeness auto
termination
  by (relation "measure (\<lambda>(p, s). length s)") auto

section \<open>The decoder \<^verbatim>\<open>json.loads\<close>\<close>

text \<open>
  The methods below take the decoder as a parameter, and their theorems hold for every
  decoder. Closed examples need one decoder to run: \<open>json_loads\<close> follows the pure
  Python decoder of the standard library (\<^verbatim>\<open>json/decoder.py\<close> and
  \<^verbatim>\<open>json/scanner.py\<close>): \<^verbatim>\<open>py_scanstring\<close> in strict mode, the number pattern
  \<^verbatim>\<open>(-?(?:0|[1-9]\d*))(\.\d+)?([eE][-+]?\d+)?\<close>, \<^verbatim>\<open>JSONArray\<close>,
  \<^verbatim>\<open>JSONObject\<close>, and the check for data after the value. Its recursion is bounded
  by a fuel that the length of the text determines. A \<^verbatim>\<open>\u\<close> escape of a
  code point above 255 has no counterpart in the 8-bit characters of \<open>string\<close> and
  is rejected.
\<close>

definition is_ws :: "char \<Rightarrow> bool" where
  "is_ws c \<longleftrightarrow> c \<in> set [CHR '' '', CHR 0x09, CHR 0x0A, CHR 0x0D]"

definition skip_ws :: "string \<Rightarrow> string" where
  "skip_ws s = dropWhile is_ws s"

definition is_digit :: "char \<Rightarrow> bool" where
  "is_digit c \<longleftrightarrow> c \<in> set ''0123456789''"

fun expect :: "string \<Rightarrow> string \<Rightarrow> string option" where
  "expect [] s = Some s"
| "expect (c # cs) [] = None"
| "expect (c # cs) (d # ds) = (if c = d then expect cs ds else None)"

definition int_of_digits :: "string \<Rightarrow> int" where
  "int_of_digits ds = foldl (\<lambda>n d. 10 * n + (of_char d - 48)) 0 ds"

definition hex_digit :: "char \<Rightarrow> nat option" where
  "hex_digit c =
     (if is_digit c then Some (of_char c - 48)
      else if c \<in> set ''abcdef'' then Some (of_char c - 87)
      else if c \<in> set ''ABCDEF'' then Some (of_char c - 55)
      else None)"

definition unescape :: "char \<Rightarrow> char option" where
  "unescape e =
     (if e = dquote then Some dquote
      else if e = backslash then Some backslash
      else if e = CHR ''/'' then Some CHR ''/''
      else if e = CHR ''b'' then Some (CHR 0x08)
      else if e = CHR ''f'' then Some (CHR 0x0C)
      else if e = CHR ''n'' then Some (CHR 0x0A)
      else if e = CHR ''r'' then Some (CHR 0x0D)
      else if e = CHR ''t'' then Some (CHR 0x09)
      else None)"

definition push :: "char \<Rightarrow> (string \<times> string) option \<Rightarrow> (string \<times> string) option" where
  "push c r = (case r of None \<Rightarrow> None | Some (str, rest) \<Rightarrow> Some (c # str, rest))"

fun scanstring :: "string \<Rightarrow> (string \<times> string) option" where
  "scanstring [] = None"
| "scanstring (c # cs) =
     (if c = dquote then Some ([], cs)
      else if c = backslash then
        (case cs of
           [] \<Rightarrow> None
         | e # es \<Rightarrow>
             if e = CHR ''u'' then
               (case es of
                  h1 # h2 # h3 # h4 # r \<Rightarrow>
                    (case (hex_digit h1, hex_digit h2, hex_digit h3, hex_digit h4) of
                       (Some a, Some b, Some c', Some d) \<Rightarrow>
                         if a = 0 \<and> b = 0 then push (char_of (16 * c' + d)) (scanstring r)
                         else None
                     | _ \<Rightarrow> None)
                | _ \<Rightarrow> None)
             else
               (case unescape e of
                  None \<Rightarrow> None
                | Some x \<Rightarrow> push x (scanstring es)))
      else if of_char c < (32::nat) then None
      else push c (scanstring cs))"

definition scan_exponent :: "string \<Rightarrow> string \<times> string" where
  "scan_exponent r =
     (case r of
        [] \<Rightarrow> ([], r)
      | e # t \<Rightarrow>
          if e \<in> set ''eE'' then
            (let (sg, t') = (case t of [] \<Rightarrow> ([], t)
                             | c # u \<Rightarrow> if c \<in> set ''+-'' then ([c], u) else ([], t))
             in case t' of
                  [] \<Rightarrow> ([], r)
                | d # _ \<Rightarrow>
                    if is_digit d then (e # sg @ takeWhile is_digit t', dropWhile is_digit t')
                    else ([], r))
          else ([], r))"

text \<open>
  \<^verbatim>\<open>NUMBER_RE.match\<close>: the groups \<^verbatim>\<open>integer\<close>, \<^verbatim>\<open>frac\<close> and
  \<^verbatim>\<open>exp\<close> (empty when the group did not take part in the match) and the text after
  the match.
\<close>

definition match_number :: "string \<Rightarrow> ((string \<times> string \<times> string) \<times> string) option" where
  "match_number s =
     (let (sign, s1) = (case s of [] \<Rightarrow> ([], s)
                        | c # r \<Rightarrow> if c = CHR ''-'' then ([c], r) else ([], s))
      in case s1 of
           [] \<Rightarrow> None
         | d # ds \<Rightarrow>
             if \<not> is_digit d then None
             else
               (let (ip, r1) = (if d = CHR ''0'' then ([d], ds)
                                else (d # takeWhile is_digit ds, dropWhile is_digit ds));
                    (frac, r2) = (case r1 of
                                    p # f # fs \<Rightarrow>
                                      if p = CHR ''.'' \<and> is_digit f
                                      then (p # takeWhile is_digit (f # fs),
                                            dropWhile is_digit (f # fs))
                                      else ([], r1)
                                  | _ \<Rightarrow> ([], r1));
                    (ex, r3) = scan_exponent r2
                in Some ((sign @ ip, frac, ex), r3)))"

definition parse_int :: "string \<Rightarrow> int" where
  "parse_int integer =
     (case integer of
        [] \<Rightarrow> 0
      | c # ds \<Rightarrow> if c = CHR ''-'' then - int_of_digits ds else int_of_digits integer)"

definition scan_number :: "string \<Rightarrow> (pyval \<times> string) option" where
  "scan_number s =
     (case match_number s of
        None \<Rightarrow> None
      | Some ((integer, frac, ex), r) \<Rightarrow>
          if frac \<noteq> [] \<or> ex \<noteq> [] then Some (PFloat (integer @ frac @ ex), r)
          else Some (PInt (parse_int integer), r))"

definition scan_literal :: "string \<Rightarrow> (pyval \<times> string) option" where
  "scan_literal s =
     (case expect ''null'' s of Some r \<Rightarrow> Some (PNone, r) | None \<Rightarrow>
      case expect ''true'' s of Some r \<Rightarrow> Some (PBool True, r) | None \<Rightarrow>
      case expect ''false'' s of Some r \<Rightarrow> Some (PBool False, r) | None \<Rightarrow>
      case scan_number s of Some x \<Rightarrow> Some x | None \<Rightarrow>
      case expect ''NaN'' s of Some r \<Rightarrow> Some (PFloat ''NaN'', r) | None \<Rightarrow>
      case expect ''Infinity'' s of Some r \<Rightarrow> Some (PFloat ''Infinity'', r) | None \<Rightarrow>
      case expect ''-Infinity'' s of Some r \<Rightarrow> Some (PFloat ''-Infinity'', r) | None \<Rightarrow>
      None)"

fun setitem :: "(string \<times> pyval) list \<Rightarrow> string \<Rightarrow> pyval \<Rightarrow> (string \<times> pyval) list" where
  "setitem [] k v = [(k, v)]"
| "setitem ((k', v') # d) k v = (if k' = k then (k', v) # d else (k', v') # setitem d k v)"

definition dict :: "(string \<times> pyval) list \<Rightarrow> (string \<times> pyval) list" where
  "dict pairs = foldl (\<lambda>d (k, v). setitem d k v) [] pairs"

fun scan_once :: "nat \<Rightarrow> string \<Rightarrow> (pyval \<times> string) option"
  and JSONArray :: "nat \<Rightarrow> string \<Rightarrow> (pyval list \<times> string) option"
  and JSONObject :: "nat \<Rightarrow> string \<Rightarrow> ((string \<times> pyval) list \<times> string) option"
where
  "scan_once 0 s = None"
| "scan_once (Suc n) s =
     (case s of
        [] \<Rightarrow> None
      | c # cs \<Rightarrow>
          if c = dquote then
            (case scanstring cs of None \<Rightarrow> None | Some (str, r) \<Rightarrow> Some (PStr str, r))
          else if c = CHR ''{'' then
            (case skip_ws cs of
               [] \<Rightarrow> None
             | d # ds \<Rightarrow>
                 if d = CHR ''}'' then Some (PDict [], ds)
                 else (case JSONObject n (d # ds) of
                         None \<Rightarrow> None
                       | Some (pairs, r) \<Rightarrow> Some (PDict (dict pairs), r)))
          else if c = CHR ''['' then
            (case skip_ws cs of
               [] \<Rightarrow> None
             | d # ds \<Rightarrow>
                 if d = CHR '']'' then Some (PList [], ds)
                 else (case JSONArray n (d # ds) of
                         None \<Rightarrow> None
                       | Some (vs, r) \<Rightarrow> Some (PList vs, r)))
          else scan_literal s)"
| "JSONArray 0 s = None"
| "JSONArray (Suc n) s =
     (case scan_once n s of
        None \<Rightarrow> None
      | Some (v, r) \<Rightarrow>
          (case skip_ws r of
             [] \<Rightarrow> None
           | d # ds \<Rightarrow>
               if d = CHR '']'' then Some ([v], ds)
               else if d = CHR '','' then
                 (case JSONArray n (skip_ws ds) of
                    None \<Rightarrow> None
                  | Some (vs, r') \<Rightarrow> Some (v # vs, r'))
               else None))"
| "JSONObject 0 s = None"
| "JSONObject (Suc n) s =
     (case s of
        [] \<Rightarrow> None
      | q # s1 \<Rightarrow>
          if q \<noteq> dquote then None
          else
            (case scanstring s1 of
               None \<Rightarrow> None
             | Some (key, r) \<Rightarrow>
                 (case skip_ws r of
                    [] \<Rightarrow> None
                  | c # r1 \<Rightarrow>
                      if c \<noteq> CHR '':'' then None
                      else
                        (case scan_once n (skip_ws r1) of
                           None \<Rightarrow> None
                         | Some (v, r2) \<Rightarrow>
                             (case skip_ws r2 of
                                [] \<Rightarrow> None
                              | d # ds \<Rightarrow>
                                  if d = CHR ''}'' then Some ([(key, v)], ds)
                                  else if d = CHR '','' then
                                    (case JSONObject n (skip_ws ds) of
                                       None \<Rightarrow> None
                                     | Some (ps, r3) \<Rightarrow> Some ((key, v) # ps, r3))
                                  else None)))))"

definition json_loads :: "string \<Rightarrow> pyval option" where
  "json_loads s =
     (case scan_once (2 * length s + 2) (skip_ws s) of
        None \<Rightarrow> None
      | Some (v, r) \<Rightarrow> if skip_ws r = [] then Some v else None)"

section \<open>The class \<^verbatim>\<open>JSNOT\<close>\<close>

text \<open>
  An object of the class has one attribute, \<^verbatim>\<open>_value\<close>. The decoder
  \<^verbatim>\<open>json.loads\<close> belongs to the standard library, not to the module: it is the
  parameter \<open>loads\<close> of the constructor and of the methods that construct, a function
  from a text to the decoded value, with \<open>None\<close> where the decoder raises
  \<^verbatim>\<open>JSONDecodeError\<close>. \<^verbatim>\<open>json.load(fp)\<close> is \<^verbatim>\<open>json.loads(fp.read())\<close>.
\<close>

datatype JSNOT = JSNOT (the_value: pyval)

text \<open>\<^verbatim>\<open>__init__\<close>, returning the constructed object.\<close>

fun init :: "(string \<Rightarrow> pyval option) \<Rightarrow> pyval \<Rightarrow> error + JSNOT" where
  "init loads (PStr s) =
     (case loads s of None \<Rightarrow> Inl JSONDecodeError | Some d \<Rightarrow> Inr (JSNOT d))"
| "init loads (PFile s) =
     (case loads s of None \<Rightarrow> Inl JSONDecodeError | Some d \<Rightarrow> Inr (JSNOT d))"
| "init loads v = Inr (JSNOT v)"

text \<open>\<^verbatim>\<open>__getitem__\<close>.\<close>

definition getitem :: "JSNOT \<Rightarrow> string \<Rightarrow> error + pyval" where
  "getitem self item =
     (let root = the_value self in
      if is_dict root then
        (let parts = re_split DELIMITER_PATTERN item in
         reduce (\<lambda>prev cur. subscript prev cur) parts root)
      else Inr root)"

definition at_path :: "(string \<Rightarrow> pyval option) \<Rightarrow> JSNOT \<Rightarrow> string \<Rightarrow> error + JSNOT" where
  "at_path loads self path =
     (case getitem self path of Inl e \<Rightarrow> Inl e | Inr v \<Rightarrow> init loads v)"

text \<open>
  \<^verbatim>\<open>get\<close> returns either a \<^verbatim>\<open>JSNOT\<close> object or the default it was given, which
  can be any value.
\<close>

datatype 'd get_result = Found JSNOT | Default 'd

definition get ::
  "(string \<Rightarrow> pyval option) \<Rightarrow> JSNOT \<Rightarrow> string \<Rightarrow> 'd \<Rightarrow> error + 'd get_result" where
  "get loads self path dflt =
     (case at_path loads self path of
        Inr j \<Rightarrow> Inr (Found j)
      | Inl e \<Rightarrow> if is_LookupError e then Inr (Default dflt) else Inl e)"

definition has :: "JSNOT \<Rightarrow> string \<Rightarrow> error + bool" where
  "has self path =
     (case getitem self path of
        Inl e \<Rightarrow> if is_LookupError e then Inr False else Inl e
      | Inr v \<Rightarrow> Inr True)"

definition satisfy :: "JSNOT \<Rightarrow> classinfo \<Rightarrow> error + JSNOT" where
  "satisfy self cls =
     (if \<not> isinstance (the_value self) cls then Inl (TypeError cls) else Inr self)"

text \<open>
  \<^verbatim>\<open>cast\<close> returns \<^verbatim>\<open>type(val) if typ is not None else val\<close>: a class or a value.
  \<^verbatim>\<open>type(val)\<close> raises nothing, so the \<^verbatim>\<open>except ValueError\<close> of the source is
  never entered. The argument is \<open>None\<close> for Python's \<^verbatim>\<open>None\<close>.
\<close>

datatype cast_result = Value pyval | TypeObject pytype

definition cast :: "JSNOT \<Rightarrow> pytype option \<Rightarrow> cast_result" where
  "cast self typ =
     (let val = the_value self in
      if typ \<noteq> None then TypeObject (type_of val) else Value val)"

section \<open>Notions the statements use\<close>




section \<open>Lemmas on the pattern and the split\<close>






section \<open>Lemmas on the traversal\<close>







lemma subscript_other [simp]:
  "subscript v k \<noteq> Inl JSONDecodeError" "subscript v k \<noteq> Inl (TypeError c)"
  by (cases v; auto split: option.splits)+


lemma reduce_append:
  "reduce f (xs @ ys) a = (case reduce f xs a of Inl e \<Rightarrow> Inl e | Inr b \<Rightarrow> reduce f ys b)"
  by (induction xs arbitrary: a) (auto split: sum.splits)

lemma reduce_Inl_split:
  "reduce f ks v = Inl e \<longleftrightarrow>
     (\<exists>pre k post u. ks = pre @ k # post \<and> reduce f pre v = Inr u \<and> f u k = Inl e)"
proof (induction ks arbitrary: v)
  case Nil
  show ?case by simp
next
  case (Cons k ks)
  show ?case
  proof (cases "f v k")
    case (Inl e')
    show ?thesis
    proof
      assume "reduce f (k # ks) v = Inl e"
      with Inl have "e' = e" by simp
      with Inl have "k # ks = [] @ k # ks \<and> reduce f [] v = Inr v \<and> f v k = Inl e" by simp
      then show "\<exists>pre k' post u. k # ks = pre @ k' # post \<and> reduce f pre v = Inr u \<and> f u k' = Inl e"
        by blast
    next
      assume "\<exists>pre k' post u. k # ks = pre @ k' # post \<and> reduce f pre v = Inr u \<and> f u k' = Inl e"
      then obtain pre k' post u where
        *: "k # ks = pre @ k' # post" "reduce f pre v = Inr u" "f u k' = Inl e" by blast
      show "reduce f (k # ks) v = Inl e"
      proof (cases pre)
        case Nil
        with * Inl show ?thesis by simp
      next
        case (Cons p pre')
        with * Inl show ?thesis by simp
      qed
    qed
  next
    case (Inr u)
    have "reduce f (k # ks) v = Inl e \<longleftrightarrow> reduce f ks u = Inl e" using Inr by simp
    also have "\<dots> \<longleftrightarrow> (\<exists>pre k' post w. ks = pre @ k' # post \<and> reduce f pre u = Inr w \<and> f w k' = Inl e)"
      by (rule Cons.IH)
    also have "\<dots> \<longleftrightarrow> (\<exists>pre k' post w. k # ks = pre @ k' # post \<and> reduce f pre v = Inr w \<and> f w k' = Inl e)"
    proof
      assume "\<exists>pre k' post w. ks = pre @ k' # post \<and> reduce f pre u = Inr w \<and> f w k' = Inl e"
      then obtain pre k' post w where
        "ks = pre @ k' # post" "reduce f pre u = Inr w" "f w k' = Inl e" by blast
      with Inr have "k # ks = (k # pre) @ k' # post \<and> reduce f (k # pre) v = Inr w \<and> f w k' = Inl e"
        by simp
      then show "\<exists>pre k' post w. k # ks = pre @ k' # post \<and> reduce f pre v = Inr w \<and> f w k' = Inl e"
        by blast
    next
      assume "\<exists>pre k' post w. k # ks = pre @ k' # post \<and> reduce f pre v = Inr w \<and> f w k' = Inl e"
      then obtain pre k' post w where
        *: "k # ks = pre @ k' # post" "reduce f pre v = Inr w" "f w k' = Inl e" by blast
      show "\<exists>pre k' post w. ks = pre @ k' # post \<and> reduce f pre u = Inr w \<and> f w k' = Inl e"
      proof (cases pre)
        case Nil
        with * Inr show ?thesis by simp
      next
        case (Cons p pre')
        with * Inr have "ks = pre' @ k' # post \<and> reduce f pre' u = Inr w \<and> f w k' = Inl e" by simp
        then show ?thesis by blast
      qed
    qed
    finally show ?thesis .
  qed
qed



lemma reduce_subscript_other:
  "reduce subscript ks v \<noteq> Inl JSONDecodeError" "reduce subscript ks v \<noteq> Inl (TypeError c)"
  unfolding reduce_Inl_split [of subscript] by simp_all


lemma getitem_not_dict: "\<not> is_dict (the_value self) \<Longrightarrow> getitem self path = Inr (the_value self)"
  by (simp add: getitem_def)

lemma getitem_other:
  "getitem self path \<noteq> Inl JSONDecodeError" "getitem self path \<noteq> Inl (TypeError c)"
  by (simp_all add: getitem_def Let_def reduce_subscript_other)

section \<open>Lemmas on the decoder\<close>

lemma push_Some: "push c r = Some (str, rest) \<longleftrightarrow> (\<exists>str'. r = Some (str', rest) \<and> str = c # str')"
  by (auto simp: push_def split: option.splits)

lemma scanstring_shorter: "scanstring cs = Some (str, r) \<Longrightarrow> length str < length cs"
proof (induction cs arbitrary: str r rule: length_induct)
  case (1 cs)
  note IH = "1.IH" [rule_format]
  show ?case
  proof (cases cs)
    case Nil
    with "1.prems" show ?thesis by simp
  next
    case (Cons c cs')
    show ?thesis
    proof (cases "c = dquote")
      case True
      with "1.prems" Cons show ?thesis by simp
    next
      case nq: False
      show ?thesis
      proof (cases "c = backslash")
        case False
        with nq "1.prems" Cons obtain str' where
          "scanstring cs' = Some (str', r)" "str = c # str'"
          by (auto simp: push_Some split: if_splits)
        with IH [of cs' str' r] Cons show ?thesis by simp
      next
        case True
        with nq "1.prems" Cons obtain e es where es: "cs' = e # es"
          by (cases cs') auto
        show ?thesis
        proof (cases "e = CHR ''u''")
          case False
          with True nq "1.prems" Cons es obtain x str' where
            "scanstring es = Some (str', r)" "str = x # str'"
            by (auto simp: push_Some split: option.splits)
          with IH [of es str' r] Cons es show ?thesis by simp
        next
          case u: True
          with True nq "1.prems" Cons es obtain h1 h2 h3 h4 r' where
            r': "es = h1 # h2 # h3 # h4 # r'"
            by (auto split: list.splits)
          with u True nq "1.prems" Cons es obtain x str' where
            "scanstring r' = Some (str', r)" "str = x # str'"
            by (auto simp: push_Some split: option.splits if_splits)
          with IH [of r' str' r] Cons es r' show ?thesis by simp
        qed
      qed
    qed
  qed
qed

lemma scan_number_not_str: "scan_number s \<noteq> Some (PStr x, r)"
  by (auto simp: scan_number_def split: option.splits prod.splits)

lemma scan_literal_not_str: "scan_literal s \<noteq> Some (PStr x, r)"
  by (auto simp: scan_literal_def scan_number_not_str split: option.splits)

lemma scan_once_PStr:
  "scan_once n s = Some (PStr x, r) \<Longrightarrow> \<exists>cs. s = dquote # cs \<and> scanstring cs = Some (x, r)"
  by (cases n; cases s)
     (auto simp: scan_literal_not_str split: if_splits option.splits list.splits)

lemma json_loads_not_same: "json_loads s \<noteq> Some (PStr s)"
proof
  assume "json_loads s = Some (PStr s)"
  then obtain r where "scan_once (2 * length s + 2) (skip_ws s) = Some (PStr s, r)"
    by (auto simp: json_loads_def split: option.splits if_splits)
  then obtain cs where cs: "skip_ws s = dquote # cs" "scanstring cs = Some (s, r)"
    using scan_once_PStr by blast
  from cs(2) have "length s < length cs" by (rule scanstring_shorter)
  moreover from cs(1) have "length cs < length (skip_ws s)" by simp
  moreover have "length (skip_ws s) \<le> length s"
    by (simp add: skip_ws_def length_dropWhile_le)
  ultimately show False by simp
qed

lemma json_loads_19: "json_loads ''19'' = Some (PInt 19)"
  by code_simp

lemma json_loads_Bob: "json_loads ''Bob'' = None"
  by code_simp

section \<open>The claims\<close>

subsection \<open>C1: tokenization at escape indicators\<close>

text \<open>
  Claim C1: tokenization splits the path at each backslash, except where the backslash is
  immediately followed by one of the escape indicators, double quote, backslash,
  \<^verbatim>\<open>/ b f n r t u\<close>; the path of the three characters \<^verbatim>\<open>a\b\<close> splits into
  \<^verbatim>\<open>a\<close> and \<^verbatim>\<open>b\<close>, and the path of the four characters \<^verbatim>\<open>a\\b\<close>, where
  the delimiter is followed by a backslash, is not split and stays one segment.

  The docstring of \<^verbatim>\<open>DELIMITER_PATTERN\<close> lists the same nine characters, the
  backslash among them. The pattern itself keeps the backslash outside the class: its
  lookahead asks for a backslash and then one of the other eight characters. So on the
  code the first backslash of \<^verbatim>\<open>a\\b\<close> is kept, being followed by a backslash and
  \<^verbatim>\<open>b\<close>, but the second one, followed by \<^verbatim>\<open>b\<close> alone, is a separator: the
  path splits into the two segments \<^verbatim>\<open>a\\<close> and \<^verbatim>\<open>b\<close>. The theorem
  evaluates the code there, and on \<^verbatim>\<open>a\b\<close>.
\<close>

theorem DELIMITER_PATTERN_splits_after_escaped_backslash:
  "re_split DELIMITER_PATTERN [CHR ''a'', backslash, backslash, CHR ''b'']
     = [[CHR ''a'', backslash], ''b'']
   \<and> re_split DELIMITER_PATTERN [CHR ''a'', backslash, CHR ''b''] = [''a'', ''b'']"
  by (simp add: DELIMITER_PATTERN_def)

subsection \<open>C2: the errors of the raw lookup\<close>




subsection \<open>C3: \<^verbatim>\<open>has\<close> and \<^verbatim>\<open>at_path\<close>\<close>

text \<open>
  Claim C3: for every wrapped mapping and every path, \<^verbatim>\<open>has\<close> returns true if and
  only if \<^verbatim>\<open>at_path\<close> does not raise a lookup failure, and returns false
  otherwise, without raising.

  The docstring of \<^verbatim>\<open>has\<close> promises a boolean, true if the property exists and false
  otherwise, and its \<^verbatim>\<open>except LookupError\<close> turns a failed lookup into false. The
  clause misses the \<^verbatim>\<open>TypeError\<close> that indexing a value other than a mapping
  raises. On the wrapped value \<^verbatim>\<open>{"a": 1}\<close> the path \<^verbatim>\<open>a\b\<close> resolves \<^verbatim>\<open>a\<close>
  to the integer 1 and indexes it by \<^verbatim>\<open>b\<close>: no property exists there, and
  \<^verbatim>\<open>has\<close> returns neither true nor false but raises \<^verbatim>\<open>TypeError\<close>, as
  \<^verbatim>\<open>at_path\<close> does. The theorem evaluates the code there.
\<close>

theorem has_non_mapping_raises:
  "getitem (JSNOT (PDict [(''a'', PInt 1)])) ''a'' = Inr (PInt 1)
   \<and> has (JSNOT (PDict [(''a'', PInt 1)])) [CHR ''a'', backslash, CHR ''b'']
       = Inl (TypeError_subscript TInt)
   \<and> \<not> is_LookupError (TypeError_subscript TInt)
   \<and> at_path json_loads (JSNOT (PDict [(''a'', PInt 1)])) [CHR ''a'', backslash, CHR ''b'']
       = Inl (TypeError_subscript TInt)"
  by (simp add: has_def at_path_def getitem_def DELIMITER_PATTERN_def)

subsection \<open>C4: \<^verbatim>\<open>get\<close> and its default\<close>

text \<open>
  Claim C4: for every wrapped mapping, path and default, \<^verbatim>\<open>get\<close> returns the
  default as it is, not wrapped, exactly when the path is absent, and otherwise returns a
  \<^verbatim>\<open>JSNOT\<close> wrapping the value present at the path; on \<^verbatim>\<open>{"a": {"b": 1}}\<close> with
  the default \<^verbatim>\<open>-1\<close> the path \<^verbatim>\<open>a\c\<close> yields \<^verbatim>\<open>-1\<close> and the path
  \<^verbatim>\<open>a\b\<close> a \<^verbatim>\<open>JSNOT\<close> wrapping 1.

  The docstring of \<^verbatim>\<open>get\<close> promises the value at the path if any, otherwise the
  default. The code does so at the two examples of the claim. It does not where the path
  runs through a value that is not a mapping: on \<^verbatim>\<open>{"a": 1}\<close> and the path
  \<^verbatim>\<open>a\b\<close> there is no value at the path, and \<^verbatim>\<open>get\<close> raises
  \<^verbatim>\<open>TypeError\<close>, which its \<^verbatim>\<open>except LookupError\<close> misses, instead of returning
  the default. Nor does it where the value at the path is a string: on
  \<^verbatim>\<open>{"name": "Bob"}\<close> and the path \<^verbatim>\<open>name\<close> the value \<^verbatim>\<open>Bob\<close> is present, and
  \<^verbatim>\<open>get\<close> raises \<^verbatim>\<open>JSONDecodeError\<close>, the constructor taking the string for
  JSON text. The theorem evaluates the code at the four inputs.
\<close>

theorem get_non_mapping_raises:
  "get json_loads (JSNOT (PDict [(''a'', PInt 1)])) [CHR ''a'', backslash, CHR ''b''] (- 1 :: int)
     = Inl (TypeError_subscript TInt)
   \<and> get json_loads (JSNOT (PDict [(''name'', PStr ''Bob'')])) ''name'' (- 1 :: int)
     = Inl JSONDecodeError
   \<and> get json_loads (JSNOT (PDict [(''a'', PDict [(''b'', PInt 1)])]))
      [CHR ''a'', backslash, CHR ''c''] (- 1 :: int) = Inr (Default (- 1))
   \<and> get json_loads (JSNOT (PDict [(''a'', PDict [(''b'', PInt 1)])]))
      [CHR ''a'', backslash, CHR ''b''] (- 1 :: int) = Inr (Found (JSNOT (PInt 1)))"
  by (simp add: get_def at_path_def getitem_def DELIMITER_PATTERN_def json_loads_Bob)

subsection \<open>C5: \<^verbatim>\<open>at_path\<close> against indexing by hand\<close>

text \<open>
  Claim C5: for every wrapped mapping and every path whose segments all resolve,
  \<^verbatim>\<open>at_path(path).cast(None)\<close> equals the value that indexing the mapping by the
  segments in order gives.

  The docstring of \<^verbatim>\<open>at_path\<close> promises the value at the path, wrapped. The code
  wraps it through the constructor, which takes every string for JSON text. On the wrapped
  value \<^verbatim>\<open>{"name": "Bob"}\<close> the path \<^verbatim>\<open>name\<close> resolves to the string
  \<^verbatim>\<open>Bob\<close>, and \<^verbatim>\<open>at_path\<close> raises \<^verbatim>\<open>JSONDecodeError\<close>; on
  \<^verbatim>\<open>{"deep": "19"}\<close> the path \<^verbatim>\<open>deep\<close> resolves to the string \<^verbatim>\<open>19\<close>, and
  \<^verbatim>\<open>at_path(path).cast(None)\<close> is the integer 19. The theorem evaluates the code at
  both.
\<close>

theorem at_path_string_value:
  "getitem (JSNOT (PDict [(''name'', PStr ''Bob'')])) ''name'' = Inr (PStr ''Bob'')
   \<and> at_path json_loads (JSNOT (PDict [(''name'', PStr ''Bob'')])) ''name'' = Inl JSONDecodeError
   \<and> getitem (JSNOT (PDict [(''deep'', PStr ''19'')])) ''deep'' = Inr (PStr ''19'')
   \<and> at_path json_loads (JSNOT (PDict [(''deep'', PStr ''19'')])) ''deep'' = Inr (JSNOT (PInt 19))
   \<and> cast (JSNOT (PInt 19)) None = Value (PInt 19)"
  by (simp add: at_path_def getitem_def DELIMITER_PATTERN_def json_loads_19 json_loads_Bob cast_def)

subsection \<open>C6: \<^verbatim>\<open>at_path\<close> decodes a string it looks up\<close>

text \<open>
  Claim C6: whenever the raw lookup yields a string \<open>s\<close>, \<^verbatim>\<open>at_path\<close> does not
  wrap \<open>s\<close> itself: it returns a \<^verbatim>\<open>JSNOT\<close> wrapping the result of decoding
  \<open>s\<close> when \<open>s\<close> is valid JSON text, and fails with the decode error, which is not a
  lookup error, when it is not; \<^verbatim>\<open>has\<close> returns true all the same, and \<^verbatim>\<open>get\<close>
  propagates the decode error instead of returning the default. This holds for every
  decoder; with the decoder \<open>json_loads\<close> the wrapped result is never the string
  \<open>s\<close>.
\<close>

theorem at_path_decodes_string:
  assumes "getitem self path = Inr (PStr s)"
  shows "at_path loads self path
           = (case loads s of None \<Rightarrow> Inl JSONDecodeError | Some v \<Rightarrow> Inr (JSNOT v))
       \<and> has self path = Inr True
       \<and> (loads s = None \<longrightarrow>
            at_path loads self path = Inl JSONDecodeError
            \<and> \<not> is_LookupError JSONDecodeError
            \<and> get loads self path dflt = Inl JSONDecodeError)
       \<and> at_path json_loads self path \<noteq> Inr (JSNOT (PStr s))"
  using assms json_loads_not_same [of s]
  by (auto simp: at_path_def has_def get_def split: option.splits)

text \<open>
  The theorem at the wrapped value \<^verbatim>\<open>{"name": "Bob"}\<close> and the path \<^verbatim>\<open>name\<close>:
  the lookup yields the string \<^verbatim>\<open>Bob\<close>, which is not JSON text.
\<close>

theorem at_path_decodes_string_witness:
  "getitem (JSNOT (PDict [(''name'', PStr ''Bob'')])) ''name'' = Inr (PStr ''Bob'')
   \<and> json_loads ''Bob'' = None
   \<and> at_path json_loads (JSNOT (PDict [(''name'', PStr ''Bob'')])) ''name'' = Inl JSONDecodeError
   \<and> has (JSNOT (PDict [(''name'', PStr ''Bob'')])) ''name'' = Inr True
   \<and> get json_loads (JSNOT (PDict [(''name'', PStr ''Bob'')])) ''name'' (- 1 :: int)
       = Inl JSONDecodeError"
proof -
  have h: "getitem (JSNOT (PDict [(''name'', PStr ''Bob'')])) ''name'' = Inr (PStr ''Bob'')"
    by (simp add: getitem_def DELIMITER_PATTERN_def)
  from at_path_decodes_string [OF h, of json_loads "- 1 :: int"] h show ?thesis
    by (simp add: json_loads_Bob)
qed

subsection \<open>C7: the raw lookup on a value that is not a mapping\<close>

text \<open>
  Claim C7: for every wrapped value that is not a mapping and for every path,
  \<^verbatim>\<open>__getitem__\<close> returns the wrapped value unchanged; the path is ignored.
\<close>

theorem getitem_non_mapping:
  "\<not> is_dict (the_value self) \<Longrightarrow> getitem self path = Inr (the_value self)"
  by (simp add: getitem_def)

text \<open>The theorem at the wrapped list \<^verbatim>\<open>[1]\<close> and the path \<^verbatim>\<open>a\c\<close>.\<close>

theorem getitem_non_mapping_witness:
  "\<not> is_dict (the_value (JSNOT (PList [PInt 1])))
   \<and> getitem (JSNOT (PList [PInt 1])) [CHR ''a'', backslash, CHR ''c''] = Inr (PList [PInt 1])"
proof -
  have h: "\<not> is_dict (the_value (JSNOT (PList [PInt 1])))" by simp
  from getitem_non_mapping [OF h] h show ?thesis by simp
qed

subsection \<open>C8: edge cases of the tokenization\<close>




subsection \<open>C9: \<^verbatim>\<open>satisfy\<close>\<close>

text \<open>
  Claim C9: for every \<^verbatim>\<open>JSNOT\<close> object \<open>v\<close> and every kind \<open>k\<close>,
  \<^verbatim>\<open>satisfy\<close> fails with a \<^verbatim>\<open>TypeError\<close> carrying \<open>k\<close> when the wrapped value
  is not an instance of \<open>k\<close>, and otherwise returns \<open>v\<close> itself; so
  \<^verbatim>\<open>v.satisfy(k).satisfy(k)\<close> succeeds exactly when \<^verbatim>\<open>v.satisfy(k)\<close> does, with the
  same result.
\<close>

theorem satisfy_result:
  "(\<not> isinstance (the_value v) k \<longrightarrow> satisfy v k = Inl (TypeError k))
   \<and> (isinstance (the_value v) k \<longrightarrow> satisfy v k = Inr v)
   \<and> (case satisfy v k of Inl e \<Rightarrow> Inl e | Inr w \<Rightarrow> satisfy w k) = satisfy v k"
  by (simp add: satisfy_def)

text \<open>
  The theorem at the wrapped value \<^verbatim>\<open>True\<close> and the class \<^verbatim>\<open>int\<close>, which it
  satisfies, and at the wrapped string \<^verbatim>\<open>19\<close> and the tuple \<^verbatim>\<open>(int, float)\<close>, which
  it does not.
\<close>

theorem satisfy_result_witness:
  "isinstance (the_value (JSNOT (PBool True))) (Class TInt)
   \<and> satisfy (JSNOT (PBool True)) (Class TInt) = Inr (JSNOT (PBool True))
   \<and> \<not> isinstance (the_value (JSNOT (PStr ''19''))) (Tuple [Class TInt, Class TFloat])
   \<and> satisfy (JSNOT (PStr ''19'')) (Tuple [Class TInt, Class TFloat])
       = Inl (TypeError (Tuple [Class TInt, Class TFloat]))"
proof -
  have a: "isinstance (the_value (JSNOT (PBool True))) (Class TInt)"
    by (simp add: issubclass_def)
  have b: "\<not> isinstance (the_value (JSNOT (PStr ''19''))) (Tuple [Class TInt, Class TFloat])"
    by (simp add: issubclass_def)
  from satisfy_result [of "JSNOT (PBool True)" "Class TInt"]
    satisfy_result [of "JSNOT (PStr ''19'')" "Tuple [Class TInt, Class TFloat]"] a b
  show ?thesis by blast
qed

subsection \<open>C10: \<^verbatim>\<open>cast\<close>\<close>

text \<open>
  Claim C10, as amended: for every \<^verbatim>\<open>JSNOT\<close> object, \<^verbatim>\<open>cast\<close> returns the raw
  wrapped value unchanged when the type given is \<^verbatim>\<open>None\<close>; when a type is given it
  converts nothing and returns the class of the wrapped value, \<^verbatim>\<open>type(val)\<close>,
  whichever type was given.
\<close>

theorem cast_result:
  "cast self None = Value (the_value self)
   \<and> cast self (Some t) = TypeObject (type_of (the_value self))"
  by (simp add: cast_def)

text \<open>The theorem at the wrapped string \<^verbatim>\<open>19\<close> and the type \<^verbatim>\<open>float\<close>.\<close>

theorem cast_result_witness:
  "cast (JSNOT (PStr ''19'')) None = Value (PStr ''19'')
   \<and> cast (JSNOT (PStr ''19'')) (Some TFloat) = TypeObject TStr"
  using cast_result [of "JSNOT (PStr ''19'')" TFloat] by simp

text \<open>
  Claim C10 as stated fails: on the wrapped integer 19, \<^verbatim>\<open>cast(float)\<close> does not
  return the type it was given, \<^verbatim>\<open>float\<close>, but \<^verbatim>\<open>int\<close>.
\<close>

theorem cast_given_type_counterexample:
  "cast (JSNOT (PInt 19)) (Some TFloat) = TypeObject TInt
   \<and> cast (JSNOT (PInt 19)) (Some TFloat) \<noteq> TypeObject TFloat"
  by (simp add: cast_def)

end
